theory Spec2Isabelle
  imports Main "HOL-Library.Word"
begin

section \<open>Data model (src/utils/types.ts)\<close>

text \<open>
  A JavaScript string is a sequence of 16-bit code units (\<open>jsstring\<close>), and the name
  of an agent is held so, because \<open>encodeURIComponent\<close> reads its code units and throws
  on a surrogate without its partner. Of every other string the client tests at most
  whether it is empty and passes it on: such a string is held as the list of its UTF-8
  bytes, so the empty string is \<open>[]\<close> in both representations. A property
  that an object does not carry (\<open>undefined\<close>) is \<open>None\<close>: the interfaces declare
  \<open>sender\<close>, \<open>type\<close> and \<open>content\<close> as required, but the checks of the client
  exist for callers that leave them out, as the test-suite does through \<open>as any\<close>.
  JavaScript numbers are integers here (\<open>NaN\<close> and fractions are not represented).
\<close>

record sender_info =
  id' :: "string option"
  name :: "string option"

record message =
  sender :: "sender_info option"
  type' :: "string option"
  content :: "string option"
  timestamp :: "string option"

record options =
  baseUrl :: "string option"
  timeout :: "int option"
  retry :: "int option"

record agent_identity =
  agent_id :: string
  agent_name :: string

record metadata_info =
  usedToken :: int
  usedTools :: int

record call_response =
  resp_sender :: agent_identity
  resp_timestamp :: string
  resp_type :: string
  resp_content :: string
  metadata :: metadata_info

record agents_response =
  availableAgents :: "string list"

record service_status =
  svc_status :: string
  svc_error :: "string option"
  svc_count :: "int option"
  svc_agents :: "string list option"
  svc_providers :: "string list option"

record services_info =
  prompt :: "service_status option"
  agents :: "service_status option"
  providers :: "service_status option"
  spec :: "service_status option"

record health_status =
  health :: string
  health_timestamp :: string
  services :: services_info

record call_request =
  messages :: "message list"

text \<open>The argument of \<open>call\<close> and \<open>callAgent\<close> has the type \<open>Message[] | Message\<close>.\<close>

datatype messages_input = Single message | Many "message list"

text \<open>
  Every \<open>throw new Error(msg)\<close> of the client is the value \<open>Error msg\<close>; \<open>URIError\<close> is
  the error that \<open>encodeURIComponent\<close> throws (the text of its message depends on the
  JavaScript engine).
\<close>

datatype error = Error string | URIError

type_synonym jsstring = "16 word list"

text \<open>The code units of a string of ASCII characters.\<close>

definition ascii :: "string \<Rightarrow> jsstring" where
  "ascii s = map (\<lambda>c. of_nat (of_char c)) s"

section \<open>Truthiness\<close>

text \<open>
  \<open>!x\<close> holds for \<open>undefined\<close> and for the empty string; an object is always truthy;
  of the numbers, \<open>0\<close> is falsy.
\<close>

definition truthy_str :: "string option \<Rightarrow> bool" where
  "truthy_str s = (case s of None \<Rightarrow> False | Some v \<Rightarrow> v \<noteq> [])"

definition truthy_num :: "int option \<Rightarrow> bool" where
  "truthy_num n = (case n of None \<Rightarrow> False | Some v \<Rightarrow> v \<noteq> 0)"

section \<open>The request normaliser (CubicClient.prepareCallRequest)\<close>

text \<open>The body of the \<open>for (const message of messages)\<close> loop, one message per step.\<close>

fun validate_loop :: "message list \<Rightarrow> error option" where
  "validate_loop [] = None"
| "validate_loop (m # ms) =
     (case sender m of
        None \<Rightarrow> Some (Error ''Each message must have both sender and content properties'')
      | Some s \<Rightarrow>
          if \<not> truthy_str (content m)
          then Some (Error ''Each message must have both sender and content properties'')
          else if \<not> truthy_str (id' s)
          then Some (Error ''Each message sender must have an id property'')
          else if \<not> truthy_str (type' m)
          then Some (Error ''Each message must have a type property'')
          else validate_loop ms)"

fun prepareCallRequest :: "messages_input \<Rightarrow> error + call_request" where
  "prepareCallRequest (Single m) =
     (case sender m of
        None \<Rightarrow> Inl (Error ''Message must have both sender and content properties'')
      | Some s \<Rightarrow>
          if \<not> truthy_str (content m)
          then Inl (Error ''Message must have both sender and content properties'')
          else if \<not> truthy_str (id' s)
          then Inl (Error ''Message sender must have an id property'')
          else if \<not> truthy_str (type' m)
          then Inl (Error ''Message must have a type property'')
          else Inr \<lparr>messages = [m]\<rparr>)"
| "prepareCallRequest (Many ms) =
     (if length ms = 0 then Inl (Error ''messages array cannot be empty'')
      else case validate_loop ms of
             Some e \<Rightarrow> Inl e
           | None \<Rightarrow> Inr \<lparr>messages = ms\<rparr>)"

section \<open>The HTTP layer\<close>

text \<open>
  The client talks to the network through axios, a dependency that is not part of the
  repository. What the client relies on is modelled as follows: a call of the instance
  merges the defaults of the instance with the configuration it is given into a new
  configuration object, keeping every property of the latter (also \<open>__retryCount\<close>);
  the error of a failed request refers to that object in its \<open>config\<close> property; the
  response handlers installed on the instance run for every call of the instance, also
  for the one the rejection handler makes.

  The request configuration: the three fields given to \<open>axios.create\<close>, the verb, path
  and body of one call (\<open>method\<close>, \<open>url\<close>, \<open>data\<close>), and the counter
  \<open>__retryCount\<close> that the retry handler keeps on it (\<open>None\<close> while it is
  \<open>undefined\<close>).
\<close>

record config =
  baseURL :: string
  timeout_ms :: int
  headers :: "(string \<times> string) list"
  req_method :: string
  url :: string
  req_data :: "call_request option"
  retryCount :: "nat option"

record 'd response =
  status :: int
  data :: 'd

text \<open>
  What one attempt on the wire ends with when it fails: axios raises an error with a
  message, perhaps a code (\<open>ECONNABORTED\<close>, ...), perhaps the response of the server
  (for a status outside 2xx), and the configuration of the request unless the failure
  arose outside the adapter (\<open>has_config\<close>).
\<close>

record 'd failure =
  fmessage :: string
  fcode :: "string option"
  has_config :: bool
  fresponse :: "'d response option"

text \<open>
  The error object that reaches the handlers. Its \<open>config\<close> property is a reference to
  the configuration object of the failed request: an address in \<open>configs\<close> below.
\<close>

record 'd axios_error =
  message :: string
  code :: "string option"
  config :: "nat option"
  response :: "'d response option"

text \<open>
  The transport (the adapter of axios, or the mock of a test) answers the \<open>n\<close>-th request
  that the instance sends, \<open>n\<close> counted from 0.
\<close>

type_synonym 'd transport = "nat \<Rightarrow> config \<Rightarrow> 'd failure + 'd response"

datatype event = Request config | Sleep int

text \<open>
  The observable state: the configuration objects allocated so far, one per request sent
  and mutable through the reference an error holds, and the trace of what the instance
  did: each request as it was sent and each \<open>setTimeout\<close> delay awaited.
\<close>

record net =
  configs :: "config list"
  trace :: "event list"

definition net0 :: net where
  "net0 = \<lparr>configs = [], trace = []\<rparr>"

text \<open>
  The instance: the defaults given to \<open>axios.create\<close> and, when the constructor
  installed the response interceptor, the \<open>maxRetries\<close> its rejection handler closes over.
\<close>

record client =
  c_baseURL :: string
  c_timeout :: int
  c_headers :: "(string \<times> string) list"
  interceptor :: "int option"

section \<open>The constructor\<close>

definition CubicClient :: "options \<Rightarrow> error + client" where
  "CubicClient opts =
     (case baseUrl opts of
        None \<Rightarrow> Inl (Error ''baseUrl is required'')
      | Some b \<Rightarrow>
          if b = [] then Inl (Error ''baseUrl is required'')
          else Inr \<lparr>c_baseURL = b,
                    c_timeout = (case timeout opts of
                                   None \<Rightarrow> 90000
                                 | Some t \<Rightarrow> if t = 0 then 90000 else t),
                    c_headers = [(''Content-Type'', ''application/json'')],
                    interceptor = (case retry opts of
                                     None \<Rightarrow> None
                                   | Some r \<Rightarrow> if r \<noteq> 0 \<and> r > 0 then Some r else None)\<rparr>)"

section \<open>The retry handler (the rejection handler installed by the constructor)\<close>

text \<open>
  \<open>error.code === 'ECONNABORTED' || error.code === 'ENOTFOUND' ||
  error.code === 'ECONNREFUSED' || (error.response && error.response.status >= 500)\<close>
\<close>

definition retryable :: "'d axios_error \<Rightarrow> bool" where
  "retryable err =
     (code err = Some ''ECONNABORTED'' \<or>
      code err = Some ''ENOTFOUND'' \<or>
      code err = Some ''ECONNREFUSED'' \<or>
      (case response err of None \<Rightarrow> False | Some r \<Rightarrow> status r \<ge> 500))"

text \<open>\<open>config.__retryCount >= maxRetries\<close>: false while the counter is \<open>undefined\<close>.\<close>

definition budget_spent :: "config \<Rightarrow> int \<Rightarrow> bool" where
  "budget_spent c maxRetries =
     (case retryCount c of None \<Rightarrow> False | Some k \<Rightarrow> int k \<ge> maxRetries)"

text \<open>\<open>config.__retryCount = config.__retryCount || 0; config.__retryCount += 1\<close>\<close>

definition next_count :: "config \<Rightarrow> nat" where
  "next_count c = (case retryCount c of None \<Rightarrow> 0 | Some k \<Rightarrow> k) + 1"

definition bump :: "config \<Rightarrow> config" where
  "bump c = c\<lparr>retryCount := Some (next_count c)\<rparr>"

text \<open>
  The handler either rejects with the error it was given or, after the delay, calls the
  instance again with the configuration object of the failed request. It updates the
  counter on that object in place, before it classifies the error.
\<close>

datatype 'd decision = Reject "'d axios_error" | Retry config

definition onRejected :: "int \<Rightarrow> 'd axios_error \<Rightarrow> net \<Rightarrow> 'd decision \<times> net" where
  "onRejected maxRetries err st =
     (case config err of
        None \<Rightarrow> (Reject err, st)
      | Some a \<Rightarrow>
          if budget_spent (configs st ! a) maxRetries then (Reject err, st)
          else
            let c = bump (configs st ! a);
                st1 = st\<lparr>configs := (configs st)[a := c]\<rparr>
            in if retryable err
               then (Retry c,
                     st1\<lparr>trace := trace st1 @ [Sleep (1000 * int (next_count (configs st ! a)))]\<rparr>)
               else (Reject err, st1))"

text \<open>
  One call of the axios instance: the configuration becomes a new object, the request is
  sent, and a failure goes through the rejection handler when one is installed (the
  fulfilment handler is the identity). The handler's \<open>this.httpClient(config)\<close> is the
  recursive call. The address of the new object is the number of requests sent before,
  which is also the index the transport answers by.
\<close>

definition raise :: "'d failure \<Rightarrow> nat \<Rightarrow> 'd axios_error" where
  "raise f a =
     \<lparr>message = fmessage f, code = fcode f,
      config = (if has_config f then Some a else None),
      response = fresponse f\<rparr>"

definition send :: "config \<Rightarrow> net \<Rightarrow> net" where
  "send cfg st = st\<lparr>configs := configs st @ [cfg], trace := trace st @ [Request cfg]\<rparr>"

text \<open>What the recursion decreases: the retries that the counter of a request leaves.\<close>

definition budget :: "client \<Rightarrow> config \<Rightarrow> nat" where
  "budget cl cfg =
     (case interceptor cl of
        None \<Rightarrow> 0
      | Some m \<Rightarrow> (case retryCount cfg of None \<Rightarrow> nat m + 1 | Some k \<Rightarrow> nat (m - int k)))"

function httpClient ::
  "client \<Rightarrow> 'd transport \<Rightarrow> config \<Rightarrow> net \<Rightarrow> ('d axios_error + 'd response) \<times> net" where
  "httpClient cl tr cfg st =
     (case tr (length (configs st)) cfg of
        Inr resp \<Rightarrow> (Inr resp, send cfg st)
      | Inl f \<Rightarrow>
          (case interceptor cl of
             None \<Rightarrow> (Inl (raise f (length (configs st))), send cfg st)
           | Some maxRetries \<Rightarrow>
               (case onRejected maxRetries (raise f (length (configs st))) (send cfg st) of
                  (Reject e, st2) \<Rightarrow> (Inl e, st2)
                | (Retry c, st2) \<Rightarrow> httpClient cl tr c st2)))"
  by pat_completeness auto
termination
proof (relation "measure (\<lambda>(cl, tr, cfg, st). budget cl cfg)")
  show "wf (measure (\<lambda>(cl, tr, cfg, st). budget cl cfg))" by simp
next
  fix cl :: client and tr :: "'d transport" and cfg st f m x st2 c
  assume i: "interceptor cl = Some m"
    and r: "(x, st2) = onRejected m (raise f (length (configs st))) (send cfg st)"
    and x: "x = Retry c"
  from r x have "onRejected m (raise f (length (configs st))) (send cfg st) = (Retry c, st2)"
    by simp
  then have c: "c = bump cfg" and b: "\<not> budget_spent cfg m"
    by (auto simp: onRejected_def raise_def send_def Let_def split: if_splits)
  from i b have "budget cl (bump cfg) < budget cl cfg"
    by (auto simp: budget_def bump_def next_count_def budget_spent_def split: option.splits)
  with c show "((cl, tr, c, st2), cl, tr, cfg, st) \<in> measure (\<lambda>(cl, tr, cfg, st). budget cl cfg)"
    by simp
qed

text \<open>
  \<open>httpClient.post(url, data)\<close> and \<open>httpClient.get(url)\<close>: axios merges the defaults of
  the instance with the verb, path and body of the call.
\<close>

definition mergeConfig :: "client \<Rightarrow> string \<Rightarrow> string \<Rightarrow> call_request option \<Rightarrow> config" where
  "mergeConfig cl m u d =
     \<lparr>baseURL = c_baseURL cl, timeout_ms = c_timeout cl, headers = c_headers cl,
      req_method = m, url = u, req_data = d, retryCount = None\<rparr>"

definition post ::
  "client \<Rightarrow> 'd transport \<Rightarrow> string \<Rightarrow> call_request \<Rightarrow> net \<Rightarrow>
   ('d axios_error + 'd response) \<times> net" where
  "post cl tr u d st = httpClient cl tr (mergeConfig cl ''post'' u (Some d)) st"

definition get ::
  "client \<Rightarrow> 'd transport \<Rightarrow> string \<Rightarrow> net \<Rightarrow> ('d axios_error + 'd response) \<times> net" where
  "get cl tr u st = httpClient cl tr (mergeConfig cl ''get'' u None) st"

section \<open>\<open>encodeURIComponent\<close>\<close>

text \<open>
  The built-in of ECMAScript (Encode, with the unescaped set of \<open>encodeURIComponent\<close>)
  reads the code units of its argument from left to right. A code unit that is a letter,
  a digit or one of \<open>- _ . ! ~ * ' ( )\<close> is kept. Otherwise the code point at that
  position is taken: a leading surrogate followed by a trailing one is the code point of
  the pair, a surrogate without its partner makes the function throw \<open>URIError\<close>, any
  other code unit is its own code point; the code point is written as the octets of its
  UTF-8 encoding, each as \<open>%\<close> and two upper-case hexadecimal digits.
\<close>

definition unreserved_chars :: string where
  "unreserved_chars =
     ''ABCDEFGHIJKLMNOPQRSTUVWXYZabcdefghijklmnopqrstuvwxyz0123456789-_.!~*()'' @ [CHR 0x27]"


text \<open>The unreserved character that a code unit stands for, if it stands for one.\<close>

definition unescaped :: "nat \<Rightarrow> char option" where
  "unescaped u = find (\<lambda>ch. of_char ch = u) unreserved_chars"

definition hexdigit :: "nat \<Rightarrow> char" where
  "hexdigit n = ''0123456789ABCDEF'' ! (n mod 16)"

definition is_lead :: "nat \<Rightarrow> bool" where
  "is_lead u = (0xD800 \<le> u \<and> u \<le> 0xDBFF)"

definition is_trail :: "nat \<Rightarrow> bool" where
  "is_trail u = (0xDC00 \<le> u \<and> u \<le> 0xDFFF)"

definition pair_code_point :: "nat \<Rightarrow> nat \<Rightarrow> nat" where
  "pair_code_point hi lo = (hi - 0xD800) * 0x400 + (lo - 0xDC00) + 0x10000"

definition utf8 :: "nat \<Rightarrow> nat list" where
  "utf8 cp =
     (if cp < 0x80 then [cp]
      else if cp < 0x800 then [0xC0 + cp div 0x40, 0x80 + cp mod 0x40]
      else if cp < 0x10000
      then [0xE0 + cp div 0x1000, 0x80 + cp div 0x40 mod 0x40, 0x80 + cp mod 0x40]
      else [0xF0 + cp div 0x40000, 0x80 + cp div 0x1000 mod 0x40,
            0x80 + cp div 0x40 mod 0x40, 0x80 + cp mod 0x40])"

definition pct :: "nat \<Rightarrow> string" where
  "pct b = [CHR ''%'', hexdigit (b div 16), hexdigit (b mod 16)]"

definition escape :: "nat \<Rightarrow> string" where
  "escape cp = concat (map pct (utf8 cp))"

text \<open>Appending to the result, unless the rest of the string makes the function throw.\<close>

definition emit :: "string \<Rightarrow> error + string \<Rightarrow> error + string" where
  "emit x rest = (case rest of Inl e \<Rightarrow> Inl e | Inr r \<Rightarrow> Inr (x @ r))"

fun encodeURIComponent :: "jsstring \<Rightarrow> error + string" where
  "encodeURIComponent [] = Inr []"
| "encodeURIComponent (c # cs) =
     (case unescaped (unat c) of
        Some ch \<Rightarrow> emit [ch] (encodeURIComponent cs)
      | None \<Rightarrow>
          if is_trail (unat c) then Inl URIError
          else if is_lead (unat c) then
            (case cs of
               [] \<Rightarrow> Inl URIError
             | d # ds \<Rightarrow>
                 if is_trail (unat d)
                 then emit (escape (pair_code_point (unat c) (unat d))) (encodeURIComponent ds)
                 else Inl URIError)
          else emit (escape (unat c)) (encodeURIComponent cs))"


section \<open>The four operations\<close>

text \<open>
  What a caller of an operation catches: an \<open>Error\<close> thrown by the client itself, or the
  axios error of the HTTP layer.
\<close>

datatype 'd thrown = Plain error | Axios "'d axios_error"

definition call ::
  "client \<Rightarrow> call_response transport \<Rightarrow> messages_input \<Rightarrow> net \<Rightarrow>
   (call_response thrown + string) \<times> net" where
  "call cl tr msgs st =
     (case prepareCallRequest msgs of
        Inl e \<Rightarrow> (Inl (Plain e), st)
      | Inr requestPayload \<Rightarrow>
          (case post cl tr ''/dispatch'' requestPayload st of
             (Inl err, st') \<Rightarrow> (Inl (Axios err), st')
           | (Inr resp, st') \<Rightarrow> (Inr (resp_content (data resp)), st')))"

definition callAgent ::
  "client \<Rightarrow> call_response transport \<Rightarrow> jsstring option \<Rightarrow> messages_input \<Rightarrow> net \<Rightarrow>
   (call_response thrown + string) \<times> net" where
  "callAgent cl tr agentName msgs st =
     (case agentName of
        None \<Rightarrow> (Inl (Plain (Error ''agentName is required'')), st)
      | Some n \<Rightarrow>
          if n = [] then (Inl (Plain (Error ''agentName is required'')), st)
          else
            (case prepareCallRequest msgs of
               Inl e \<Rightarrow> (Inl (Plain e), st)
             | Inr requestPayload \<Rightarrow>
                 (case encodeURIComponent n of
                    Inl e \<Rightarrow> (Inl (Plain e), st)
                  | Inr path \<Rightarrow>
                      (case post cl tr (''/dispatch/'' @ path) requestPayload st of
                         (Inl err, st') \<Rightarrow> (Inl (Axios err), st')
                       | (Inr resp, st') \<Rightarrow> (Inr (resp_content (data resp)), st')))))"

definition getAgents ::
  "client \<Rightarrow> agents_response transport \<Rightarrow> net \<Rightarrow>
   (agents_response thrown + string list) \<times> net" where
  "getAgents cl tr st =
     (case get cl tr ''/agents'' st of
        (Inl err, st') \<Rightarrow> (Inl (Axios err), st')
      | (Inr resp, st') \<Rightarrow> (Inr (availableAgents (data resp)), st'))"

definition getHealth ::
  "client \<Rightarrow> health_status transport \<Rightarrow> net \<Rightarrow>
   (health_status thrown + health_status) \<times> net" where
  "getHealth cl tr st =
     (case get cl tr ''/health'' st of
        (Inl err, st') \<Rightarrow> (Inl (Axios err), st')
      | (Inr resp, st') \<Rightarrow> (Inr (data resp), st'))"

section \<open>Observing a run\<close>

text \<open>The requests sent and the delays awaited, in order, and what one call added.\<close>

fun requests :: "event list \<Rightarrow> config list" where
  "requests [] = []"
| "requests (Request c # es) = c # requests es"
| "requests (Sleep d # es) = requests es"

fun delays :: "event list \<Rightarrow> int list" where
  "delays [] = []"
| "delays (Request c # es) = delays es"
| "delays (Sleep d # es) = d # delays es"

definition new_events :: "net \<Rightarrow> net \<Rightarrow> event list" where
  "new_events st st' = drop (length (trace st)) (trace st')"

section \<open>The validation rules as the specification words them\<close>

text \<open>
  A message is valid when \<open>sender\<close>, \<open>sender.id\<close>, \<open>content\<close> and the type tag are
  there. The three rules are tried in the order given; \<open>present\<close> is what the
  specification calls a property that is there, and the client tests it with \<open>!\<close>.
\<close>

datatype violation = SenderOrContent | SenderId | TypeTag

definition present :: "string option \<Rightarrow> bool" where
  "present s = truthy_str s"

definition first_violation :: "message \<Rightarrow> violation option" where
  "first_violation m =
     (if sender m = None \<or> \<not> present (content m) then Some SenderOrContent
      else if \<not> present (case sender m of None \<Rightarrow> None | Some s \<Rightarrow> id' s) then Some SenderId
      else if \<not> present (type' m) then Some TypeTag
      else None)"

fun violation_text :: "violation \<Rightarrow> string" where
  "violation_text SenderOrContent = ''must have both sender and content properties''"
| "violation_text SenderId = ''sender must have an id property''"
| "violation_text TypeTag = ''must have a type property''"

definition valid_message :: "message \<Rightarrow> bool" where
  "valid_message m = (first_violation m = None)"

section \<open>Fixtures of the test-suite\<close>

definition msg_hello :: message where
  "msg_hello =
     \<lparr>sender = Some \<lparr>id' = Some ''user_123'', name = None\<rparr>, type' = Some ''text'',
      content = Some ''Hello!'', timestamp = None\<rparr>"

definition msg_reply :: message where
  "msg_reply =
     \<lparr>sender = Some \<lparr>id' = Some ''gpt_4o'', name = Some ''GPT-4O Agent''\<rparr>,
      type' = Some ''text'', content = Some ''Hi there!'', timestamp = None\<rparr>"

definition msg_no_sender :: message where
  "msg_no_sender =
     \<lparr>sender = None, type' = None, content = Some ''Hello'', timestamp = None\<rparr>"

definition msg_blank :: message where
  "msg_blank =
     \<lparr>sender = Some \<lparr>id' = Some [], name = None\<rparr>, type' = Some ''text'',
      content = Some [], timestamp = None\<rparr>"

definition msg_no_id :: message where
  "msg_no_id =
     \<lparr>sender = Some \<lparr>id' = None, name = Some ''John''\<rparr>, type' = None,
      content = Some ''Hello'', timestamp = None\<rparr>"

definition msg_no_type :: message where
  "msg_no_type =
     \<lparr>sender = Some \<lparr>id' = Some ''user_123'', name = None\<rparr>, type' = None,
      content = Some ''Hello'', timestamp = None\<rparr>"

definition msg_empty_content :: message where
  "msg_empty_content = msg_hello\<lparr>content := Some []\<rparr>"

definition msg_empty_id :: message where
  "msg_empty_id = msg_hello\<lparr>sender := Some \<lparr>id' = Some [], name = None\<rparr>\<rparr>"

definition agent_reply :: "call_response response" where
  "agent_reply =
     \<lparr>status = 200,
      data = \<lparr>resp_sender = \<lparr>agent_id = ''gpt_4o'', agent_name = ''GPT-4O Agent''\<rparr>,
              resp_timestamp = ''2025-07-30T10:00:00Z'', resp_type = ''text'',
              resp_content = ''Response from agent'',
              metadata = \<lparr>usedToken = 150, usedTools = 2\<rparr>\<rparr>\<rparr>"

definition http_failure :: "int \<Rightarrow> call_response failure" where
  "http_failure s =
     \<lparr>fmessage = ''Request failed'', fcode = None, has_config = True,
      fresponse = Some (agent_reply\<lparr>status := s\<rparr>)\<rparr>"


definition mock_400 :: "call_response transport" where
  "mock_400 n c = Inl (http_failure 400)"

definition mock_ok :: "call_response transport" where
  "mock_ok n c = Inr agent_reply"

definition mock_agents :: "agents_response transport" where
  "mock_agents n c =
     Inr \<lparr>status = 200, data = \<lparr>availableAgents = [''gpt_4o'', ''gpt_4o'', ''claude_3_5'']\<rparr>\<rparr>"

definition localhost :: options where
  "localhost = \<lparr>baseUrl = Some ''http://localhost:1503'', timeout = None, retry = None\<rparr>"

definition client_plain :: client where
  "client_plain =
     \<lparr>c_baseURL = ''http://localhost:1503'', c_timeout = 90000,
      c_headers = [(''Content-Type'', ''application/json'')], interceptor = None\<rparr>"

definition client_retry3 :: client where
  "client_retry3 = client_plain\<lparr>interceptor := Some 3\<rparr>"

section \<open>One call of the instance, case by case\<close>

declare httpClient.simps [simp del]

lemma requests_append [simp]: "requests (xs @ ys) = requests xs @ requests ys"
  by (induction xs rule: requests.induct) simp_all

lemma delays_append [simp]: "delays (xs @ ys) = delays xs @ delays ys"
  by (induction xs rule: delays.induct) simp_all

lemma new_events_append [simp]: "trace st' = trace st @ evs \<Longrightarrow> new_events st st' = evs"
  by (simp add: new_events_def)

lemma fixtures_constructed:
  "CubicClient localhost = Inr client_plain"
  "CubicClient (localhost\<lparr>retry := Some 3\<rparr>) = Inr client_retry3"
  by (simp_all add: CubicClient_def localhost_def client_plain_def client_retry3_def)

lemma httpClient_response:
  assumes "tr (length (configs st)) cfg = Inr r"
  shows "httpClient cl tr cfg st = (Inr r, send cfg st)"
  using assms by (simp add: httpClient.simps)

lemma httpClient_plain:
  assumes "interceptor cl = None" and "tr (length (configs st)) cfg = Inl f"
  shows "httpClient cl tr cfg st = (Inl (raise f (length (configs st))), send cfg st)"
  using assms by (simp add: httpClient.simps)




lemma httpClient_exhausted:
  assumes "interceptor cl = Some m" and "tr (length (configs st)) cfg = Inl f"
    and "budget_spent cfg m"
  shows "httpClient cl tr cfg st = (Inl (raise f (length (configs st))), send cfg st)"
  using assms
  by (simp add: httpClient.simps onRejected_def raise_def send_def split: option.splits)


text \<open>Every request of one call is the first one up to the counter.\<close>

lemma httpClient_trace:
  "\<exists>evs. trace (snd (httpClient cl tr cfg st)) = trace st @ evs \<and>
         requests evs \<noteq> [] \<and>
         (\<forall>c \<in> set (requests evs). c\<lparr>retryCount := None\<rparr> = cfg\<lparr>retryCount := None\<rparr>)"
proof (induction cl tr cfg st rule: httpClient.induct)
  case (1 cl tr cfg st)
  let ?n = "length (configs st)"
  show ?case
  proof (cases "tr ?n cfg")
    case (Inr r)
    then show ?thesis by (simp add: httpClient_response send_def)
  next
    case (Inl f)
    show ?thesis
    proof (cases "interceptor cl")
      case None
      with Inl show ?thesis by (simp add: httpClient_plain send_def)
    next
      case (Some m)
      obtain d st2 where o: "onRejected m (raise f ?n) (send cfg st) = (d, st2)" by force
      show ?thesis
      proof (cases d)
        case (Reject e)
        with o have "trace st2 = trace st @ [Request cfg]"
          by (auto simp: onRejected_def send_def Let_def split: option.splits if_splits)
        with Inl Some o Reject show ?thesis by (simp add: httpClient.simps)
      next
        case (Retry c)
        with o have c: "c = bump cfg"
          and t: "trace st2 = trace st @ [Request cfg, Sleep (1000 * int (next_count cfg))]"
          by (auto simp: onRejected_def send_def raise_def Let_def split: option.splits if_splits)
        from "1.IH" [OF Inl Some o [symmetric] Retry]
        obtain evs where e: "trace (snd (httpClient cl tr c st2)) = trace st2 @ evs"
          "requests evs \<noteq> []"
          "\<forall>x \<in> set (requests evs). x\<lparr>retryCount := None\<rparr> = c\<lparr>retryCount := None\<rparr>"
          by blast
        have h: "httpClient cl tr cfg st = httpClient cl tr c st2"
          using Inl Some o Retry by (simp add: httpClient.simps)
        from e t c show ?thesis
          unfolding h
          by (intro exI [of _ "[Request cfg, Sleep (1000 * int (next_count cfg))] @ evs"])
             (auto simp: bump_def)
      qed
    qed
  qed
qed

text \<open>
  A rejection that the handler classifies leaves its mark on the configuration object of
  the request, which the error refers to: the counter is set before the class is tested.
\<close>

lemma httpClient_terminal_counter:
  assumes "interceptor cl = Some m" and "tr (length (configs st)) cfg = Inl f"
    and "has_config f" and "\<not> budget_spent cfg m"
    and "\<not> retryable (raise f (length (configs st)))"
  shows "httpClient cl tr cfg st =
           (Inl (raise f (length (configs st))),
            st\<lparr>configs := configs st @ [bump cfg], trace := trace st @ [Request cfg]\<rparr>)"
  using assms
  by (subst httpClient.simps) (simp add: onRejected_def raise_def send_def Let_def)

text \<open>With a budget of \<open>m\<close> retries, one call sends at most \<open>m + 1\<close> requests.\<close>

lemma httpClient_bound:
  assumes "interceptor cl = Some m" and "0 < m"
  shows "length (requests (new_events st (snd (httpClient cl tr cfg st))))
           \<le> Suc (case retryCount cfg of None \<Rightarrow> nat m | Some k \<Rightarrow> nat (m - int k))"
  using assms
proof (induction cl tr cfg st rule: httpClient.induct)
  case (1 cl tr cfg st)
  let ?n = "length (configs st)"
  show ?case
  proof (cases "tr ?n cfg")
    case (Inr r)
    then show ?thesis by (simp add: httpClient_response send_def)
  next
    case (Inl f)
    obtain d st2 where o: "onRejected m (raise f ?n) (send cfg st) = (d, st2)" by force
    show ?thesis
    proof (cases d)
      case (Reject e)
      with o have "trace st2 = trace st @ [Request cfg]"
        by (auto simp: onRejected_def send_def Let_def split: option.splits if_splits)
      with Inl "1.prems" o Reject show ?thesis by (simp add: httpClient.simps)
    next
      case (Retry c)
      with o have c: "c = bump cfg" and b: "\<not> budget_spent cfg m"
        and t: "trace st2 = trace st @ [Request cfg, Sleep (1000 * int (next_count cfg))]"
        by (auto simp: onRejected_def send_def raise_def Let_def split: option.splits if_splits)
      have h: "httpClient cl tr cfg st = httpClient cl tr c st2"
        using Inl "1.prems" o Retry by (simp add: httpClient.simps)
      obtain evs where e: "trace (snd (httpClient cl tr c st2)) = trace st2 @ evs"
        using httpClient_trace [of cl tr c st2] by blast
      from "1.IH" [OF Inl "1.prems"(1) o [symmetric] Retry "1.prems"] e
      have "length (requests evs)
              \<le> Suc (case retryCount c of None \<Rightarrow> nat m | Some k \<Rightarrow> nat (m - int k))"
        by simp
      moreover from "1.prems" b
      have "(case retryCount (bump cfg) of None \<Rightarrow> nat m | Some k \<Rightarrow> nat (m - int k))
            < (case retryCount cfg of None \<Rightarrow> nat m | Some k \<Rightarrow> nat (m - int k))"
        by (auto simp: bump_def next_count_def budget_spent_def split: option.splits)
      moreover from e t have "new_events st (snd (httpClient cl tr cfg st)) =
          [Request cfg, Sleep (1000 * int (next_count cfg))] @ evs"
        unfolding h by simp
      ultimately show ?thesis using c by simp
    qed
  qed
qed

section \<open>Failures that are not retried\<close>



section \<open>Retry with linear backoff\<close>

text \<open>What a successful construction fixes.\<close>

lemma CubicClient_Inr:
  assumes "CubicClient opts = Inr cl"
  shows "baseUrl opts = Some (c_baseURL cl)" and "c_baseURL cl \<noteq> []"
    and "c_timeout cl = (if truthy_num (timeout opts) then the (timeout opts) else 90000)"
    and "c_headers cl = [(''Content-Type'', ''application/json'')]"
    and "interceptor cl =
           (case retry opts of None \<Rightarrow> None | Some r \<Rightarrow> if 0 < r then Some r else None)"
  using assms
  by (auto simp: CubicClient_def truthy_num_def split: option.splits if_splits)




section \<open>The normaliser against the rules\<close>

lemma prepare_Single:
  "prepareCallRequest (Single m) =
     (case first_violation m of
        Some v \<Rightarrow> Inl (Error (''Message '' @ violation_text v))
      | None \<Rightarrow> Inr \<lparr>messages = [m]\<rparr>)"
  by (simp add: first_violation_def present_def split: option.splits)

lemma validate_loop_Cons:
  "validate_loop (m # ms) =
     (case first_violation m of
        Some v \<Rightarrow> Some (Error (''Each message '' @ violation_text v))
      | None \<Rightarrow> validate_loop ms)"
  by (simp add: first_violation_def present_def split: option.splits)

lemma validate_loop_valid:
  "(\<forall>m \<in> set ms. valid_message m) \<Longrightarrow> validate_loop ms = None"
  by (induction ms)
     (simp_all add: validate_loop_Cons valid_message_def del: validate_loop.simps(2))

lemma validate_loop_first:
  assumes "\<forall>x \<in> set pre. valid_message x" and "first_violation m = Some v"
  shows "validate_loop (pre @ m # rest) = Some (Error (''Each message '' @ violation_text v))"
  using assms
  by (induction pre)
     (simp_all add: validate_loop_Cons valid_message_def del: validate_loop.simps(2))

lemma validate_loop_invalid:
  assumes "m \<in> set ms" and "\<not> valid_message m"
  shows "\<exists>e. validate_loop ms = Some e"
  using assms
  by (induction ms)
     (auto simp add: validate_loop_Cons valid_message_def simp del: validate_loop.simps(2)
        split: option.splits)

lemma validate_loop_Some:
  assumes "validate_loop ms = Some e"
  shows "\<exists>v. e = Error (''Each message '' @ violation_text v)"
  using assms
  by (induction ms)
     (auto simp add: validate_loop_Cons simp del: validate_loop.simps(2) split: option.splits)

lemma prepare_Many_valid:
  assumes "ms \<noteq> []" and "\<forall>m \<in> set ms. valid_message m"
  shows "prepareCallRequest (Many ms) = Inr \<lparr>messages = ms\<rparr>"
  using assms by (simp add: validate_loop_valid)

lemma prepare_Many_first:
  assumes "\<forall>x \<in> set pre. valid_message x" and "first_violation m = Some v"
  shows "prepareCallRequest (Many (pre @ m # rest)) =
           Inl (Error (''Each message '' @ violation_text v))"
  using validate_loop_first [OF assms] by simp

lemma prepare_messages:
  assumes "prepareCallRequest msgs = Inr r"
  shows "messages r = (case msgs of Single m \<Rightarrow> [m] | Many ms \<Rightarrow> ms)"
  using assms by (cases msgs) (auto split: option.splits if_splits)

lemma rejected_offline:
  assumes "prepareCallRequest msgs = Inl e"
  shows "call cl tr msgs st = (Inl (Plain e), st)"
    and "snd (callAgent cl tr a msgs st) = st"
    and "\<exists>e'. fst (callAgent cl tr a msgs st) = Inl (Plain e')"
  using assms by (simp_all add: call_def callAgent_def split: option.splits)


section \<open>Validation order\<close>

text \<open>
  Claim C4. Every message is checked in the order (1) sender and content, (2) sender.id,
  (3) type tag, whether it was passed alone or in a sequence, and the call fails at the
  first rule a message breaks, with that rule's text (after \<open>Message\<close> for a single
  message, after \<open>Each message\<close> in a sequence): a message that breaks several rules is
  reported for the first of them, and a sequence is reported for its first invalid
  message. The failure comes before any request: \<open>call\<close>, and \<open>callAgent\<close> with any
  non-empty agent name, throw the error of the normaliser and leave the state of the
  network unchanged (with an absent or empty name \<open>callAgent\<close> has thrown already).
\<close>

theorem validation_order:
  "prepareCallRequest (Single m) =
     (case first_violation m of
        Some v \<Rightarrow> Inl (Error (''Message '' @ violation_text v))
      | None \<Rightarrow> Inr \<lparr>messages = [m]\<rparr>) \<and>
   ((\<forall>x \<in> set pre. first_violation x = None) \<and> first_violation m = Some v \<longrightarrow>
      prepareCallRequest (Many (pre @ m # rest)) =
        Inl (Error (''Each message '' @ violation_text v))) \<and>
   (sender m = None \<or> content m = None \<longrightarrow>
      prepareCallRequest (Single m) =
        Inl (Error ''Message must have both sender and content properties'') \<and>
      first_violation m = Some SenderOrContent) \<and>
   (sender m = Some s \<and> present (content m) \<and> id' s = None \<longrightarrow>
      prepareCallRequest (Single m) = Inl (Error ''Message sender must have an id property'') \<and>
      first_violation m = Some SenderId) \<and>
   (sender m = Some s \<and> present (content m) \<and> present (id' s) \<and> type' m = None \<longrightarrow>
      prepareCallRequest (Single m) = Inl (Error ''Message must have a type property'') \<and>
      first_violation m = Some TypeTag) \<and>
   (prepareCallRequest msgs = Inl e \<longrightarrow>
      call cl tr msgs st = (Inl (Plain e), st) \<and>
      snd (callAgent cl tr a msgs st) = st \<and>
      (\<exists>e'. fst (callAgent cl tr a msgs st) = Inl (Plain e')) \<and>
      (n \<noteq> [] \<longrightarrow> callAgent cl tr (Some n) msgs st = (Inl (Plain e), st)))"
proof (intro conjI impI)
  show "prepareCallRequest (Single m) =
     (case first_violation m of
        Some v \<Rightarrow> Inl (Error (''Message '' @ violation_text v))
      | None \<Rightarrow> Inr \<lparr>messages = [m]\<rparr>)"
    by (rule prepare_Single)
next
  assume "(\<forall>x \<in> set pre. first_violation x = None) \<and> first_violation m = Some v"
  then show "prepareCallRequest (Many (pre @ m # rest)) =
        Inl (Error (''Each message '' @ violation_text v))"
    using prepare_Many_first [of pre m v rest] by (simp add: valid_message_def)
next
  assume a: "sender m = None \<or> content m = None"
  then show v: "first_violation m = Some SenderOrContent"
    by (auto simp: first_violation_def present_def truthy_str_def)
  show "prepareCallRequest (Single m) =
        Inl (Error ''Message must have both sender and content properties'')"
    unfolding prepare_Single v by simp
next
  assume a: "sender m = Some s \<and> present (content m) \<and> id' s = None"
  then show v: "first_violation m = Some SenderId"
    by (simp add: first_violation_def present_def truthy_str_def)
  show "prepareCallRequest (Single m) = Inl (Error ''Message sender must have an id property'')"
    unfolding prepare_Single v by simp
next
  assume a: "sender m = Some s \<and> present (content m) \<and> present (id' s) \<and> type' m = None"
  then show v: "first_violation m = Some TypeTag"
    by (simp add: first_violation_def present_def truthy_str_def)
  show "prepareCallRequest (Single m) = Inl (Error ''Message must have a type property'')"
    unfolding prepare_Single v by simp
next
  assume e: "prepareCallRequest msgs = Inl e"
  from rejected_offline [OF e]
  show "call cl tr msgs st = (Inl (Plain e), st)"
    and "snd (callAgent cl tr a msgs st) = st"
    and "\<exists>e'. fst (callAgent cl tr a msgs st) = Inl (Plain e')"
    by blast+
  assume "n \<noteq> []"
  with e show "callAgent cl tr (Some n) msgs st = (Inl (Plain e), st)"
    by (simp add: callAgent_def)
qed

text \<open>
  The invalid messages of the test-suite: no sender and no type (the first rule wins), a
  sender without id and no type (the second rule wins), no type only; and a sequence whose
  second message is the first invalid one; and a named dispatch of the message without
  type.
\<close>

theorem validation_order_witness:
  "sender msg_no_sender = None \<and> type' msg_no_sender = None \<and>
   prepareCallRequest (Single msg_no_sender) =
     Inl (Error ''Message must have both sender and content properties'') \<and>
   id' \<lparr>id' = None, name = Some ''John''\<rparr> = None \<and> type' msg_no_id = None \<and>
   prepareCallRequest (Single msg_no_id) =
     Inl (Error ''Message sender must have an id property'') \<and>
   prepareCallRequest (Single msg_no_type) = Inl (Error ''Message must have a type property'') \<and>
   first_violation msg_hello = None \<and>
   prepareCallRequest (Many [msg_hello, msg_no_id, msg_no_sender]) =
     Inl (Error ''Each message sender must have an id property'') \<and>
   call client_plain mock_ok (Many [msg_hello, msg_no_id, msg_no_sender]) net0 =
     (Inl (Plain (Error ''Each message sender must have an id property'')), net0) \<and>
   callAgent client_plain mock_ok (Some (ascii ''my-agent'')) (Single msg_no_type) net0 =
     (Inl (Plain (Error ''Message must have a type property'')), net0)"
proof -
  have v: "first_violation msg_hello = None" "first_violation msg_no_id = Some SenderId"
    by (simp_all add: first_violation_def present_def truthy_str_def msg_hello_def msg_no_id_def)
  have s: "sender msg_no_sender = None" "type' msg_no_sender = None"
    "sender msg_no_id = Some \<lparr>id' = None, name = Some ''John''\<rparr>" "type' msg_no_id = None"
    "present (content msg_no_id)" "present (content msg_no_type)"
    "sender msg_no_type = Some \<lparr>id' = Some ''user_123'', name = None\<rparr>"
    "type' msg_no_type = None"
    by (simp_all add: msg_no_sender_def msg_no_id_def msg_no_type_def present_def truthy_str_def)
  note c2 = conjunct2
  have a: "prepareCallRequest (Single msg_no_sender) =
     Inl (Error ''Message must have both sender and content properties'')"
    using validation_order [where m = msg_no_sender, THEN c2, THEN c2, THEN conjunct1] s(1)
    by simp
  have b: "prepareCallRequest (Single msg_no_id) =
     Inl (Error ''Message sender must have an id property'')"
    using validation_order [where m = msg_no_id and s = "\<lparr>id' = None, name = Some ''John''\<rparr>",
        THEN c2, THEN c2, THEN c2, THEN conjunct1] s(3,5)
    by simp
  have c: "prepareCallRequest (Single msg_no_type) = Inl (Error ''Message must have a type property'')"
    using validation_order [where m = msg_no_type
        and s = "\<lparr>id' = Some ''user_123'', name = None\<rparr>",
        THEN c2, THEN c2, THEN c2, THEN c2, THEN conjunct1] s(6,7,8)
    by (simp add: present_def truthy_str_def)
  have d: "prepareCallRequest (Many ([msg_hello] @ msg_no_id # [msg_no_sender])) =
     Inl (Error (''Each message '' @ violation_text SenderId))"
    using validation_order [where pre = "[msg_hello]" and m = msg_no_id and v = SenderId
        and rest = "[msg_no_sender]", THEN c2, THEN conjunct1] v
    by simp
  then have d': "prepareCallRequest (Many [msg_hello, msg_no_id, msg_no_sender]) =
     Inl (Error ''Each message sender must have an id property'')"
    by simp
  have e: "call client_plain mock_ok (Many [msg_hello, msg_no_id, msg_no_sender]) net0 =
     (Inl (Plain (Error ''Each message sender must have an id property'')), net0)"
    using validation_order [where msgs = "Many [msg_hello, msg_no_id, msg_no_sender]"
        and e = "Error ''Each message sender must have an id property''"
        and cl = client_plain and tr = mock_ok and st = net0,
        THEN c2, THEN c2, THEN c2, THEN c2, THEN c2] d'
    by blast
  have n: "ascii ''my-agent'' \<noteq> []" by (simp add: ascii_def)
  have f: "callAgent client_plain mock_ok (Some (ascii ''my-agent'')) (Single msg_no_type) net0 =
     (Inl (Plain (Error ''Message must have a type property'')), net0)"
    using validation_order [where msgs = "Single msg_no_type"
        and e = "Error ''Message must have a type property''" and n = "ascii ''my-agent''"
        and cl = client_plain and tr = mock_ok and st = net0,
        THEN c2, THEN c2, THEN c2, THEN c2, THEN c2] c n
    by blast
  from a b c d' e f v(1) s(1,2,4) show ?thesis by simp
qed

section \<open>One message against the one-element sequence\<close>

text \<open>
  Claim C3, as stated, fails: a single message without sender is rejected with
  \<open>Message must have ...\<close>, the one-element sequence holding it with
  \<open>Each message must have ...\<close>.
\<close>

theorem single_is_singleton_counterexample:
  "prepareCallRequest (Single msg_no_sender) =
     Inl (Error ''Message must have both sender and content properties'') \<and>
   prepareCallRequest (Many [msg_no_sender]) =
     Inl (Error ''Each message must have both sender and content properties'') \<and>
   prepareCallRequest (Single msg_no_sender) \<noteq> prepareCallRequest (Many [msg_no_sender])"
  by (simp add: msg_no_sender_def)

text \<open>
  Claim C3, amended. A single message is accepted exactly when the one-element sequence
  holding it is, with the same envelope; it is rejected exactly when the sequence is, for
  the same rule, the text of the error following \<open>Message\<close> in one case and
  \<open>Each message\<close> in the other. For every non-empty sequence of valid messages the
  envelope holds the sequence itself, and whatever is accepted is passed on verbatim.
\<close>

theorem single_is_singleton_up_to_prefix:
  "(prepareCallRequest (Single m) = Inr r) = (prepareCallRequest (Many [m]) = Inr r) \<and>
   (prepareCallRequest (Single m) = Inl (Error (''Message '' @ t))) =
     (prepareCallRequest (Many [m]) = Inl (Error (''Each message '' @ t))) \<and>
   (\<exists>t. prepareCallRequest (Single m) = Inr \<lparr>messages = [m]\<rparr> \<or>
        prepareCallRequest (Single m) = Inl (Error (''Message '' @ t))) \<and>
   (ms \<noteq> [] \<and> (\<forall>x \<in> set ms. valid_message x) \<longrightarrow>
      prepareCallRequest (Many ms) = Inr \<lparr>messages = ms\<rparr>) \<and>
   (prepareCallRequest msgs = Inr r \<longrightarrow>
      messages r = (case msgs of Single x \<Rightarrow> [x] | Many xs \<Rightarrow> xs))"
proof (intro conjI impI)
  have many: "prepareCallRequest (Many [m]) =
     (case first_violation m of
        Some v \<Rightarrow> Inl (Error (''Each message '' @ violation_text v))
      | None \<Rightarrow> Inr \<lparr>messages = [m]\<rparr>)"
    by (simp add: validate_loop_Cons del: validate_loop.simps(2) split: option.splits)
  show "(prepareCallRequest (Single m) = Inr r) = (prepareCallRequest (Many [m]) = Inr r)"
    unfolding many prepare_Single by (simp split: option.splits)
  show "(prepareCallRequest (Single m) = Inl (Error (''Message '' @ t))) =
     (prepareCallRequest (Many [m]) = Inl (Error (''Each message '' @ t)))"
    unfolding many prepare_Single by (simp split: option.splits)
  show "\<exists>t. prepareCallRequest (Single m) = Inr \<lparr>messages = [m]\<rparr> \<or>
        prepareCallRequest (Single m) = Inl (Error (''Message '' @ t))"
    unfolding prepare_Single by (cases "first_violation m") auto
next
  assume "ms \<noteq> [] \<and> (\<forall>x \<in> set ms. valid_message x)"
  then show "prepareCallRequest (Many ms) = Inr \<lparr>messages = ms\<rparr>"
    using prepare_Many_valid by blast
next
  assume "prepareCallRequest msgs = Inr r"
  then show "messages r = (case msgs of Single x \<Rightarrow> [x] | Many xs \<Rightarrow> xs)"
    by (rule prepare_messages)
qed

text \<open>A conversation of three valid messages, one of them twice, and the message without sender.\<close>

theorem single_is_singleton_up_to_prefix_witness:
  "valid_message msg_hello \<and> valid_message msg_reply \<and>
   prepareCallRequest (Many [msg_hello, msg_reply, msg_hello]) =
     Inr \<lparr>messages = [msg_hello, msg_reply, msg_hello]\<rparr> \<and>
   prepareCallRequest (Single msg_hello) = prepareCallRequest (Many [msg_hello]) \<and>
   prepareCallRequest (Many [msg_no_sender]) =
     Inl (Error ''Each message must have both sender and content properties'')"
proof -
  have v: "valid_message msg_hello" "valid_message msg_reply"
    by (simp_all add: valid_message_def first_violation_def present_def truthy_str_def
        msg_hello_def msg_reply_def)
  have s: "prepareCallRequest (Single msg_hello) = Inr \<lparr>messages = [msg_hello]\<rparr>"
    "prepareCallRequest (Single msg_no_sender) =
       Inl (Error (''Message '' @ ''must have both sender and content properties''))"
    by (simp_all add: msg_hello_def msg_no_sender_def truthy_str_def)
  note a = single_is_singleton_up_to_prefix [where ms = "[msg_hello, msg_reply, msg_hello]"
      and m = msg_hello and r = "\<lparr>messages = [msg_hello]\<rparr>"]
  note b = single_is_singleton_up_to_prefix [where m = msg_no_sender
      and t = "''must have both sender and content properties''"]
  from a b v s show ?thesis by simp
qed

section \<open>The empty sequence\<close>

text \<open>
  Claim C5. A sequence with no element is rejected with \<open>messages array cannot be empty\<close>,
  by \<open>call\<close> and by \<open>callAgent\<close>, before any request (the state of the network is
  unchanged); only the empty sequence fails so, and a single message never does.
\<close>

theorem empty_sequence_rejected:
  "prepareCallRequest (Many []) = Inl (Error ''messages array cannot be empty'') \<and>
   (prepareCallRequest (Many ms) = Inl (Error ''messages array cannot be empty'')) = (ms = []) \<and>
   call cl tr (Many []) st = (Inl (Plain (Error ''messages array cannot be empty'')), st) \<and>
   snd (callAgent cl tr a (Many []) st) = st \<and>
   (\<exists>e. fst (callAgent cl tr a (Many []) st) = Inl (Plain e)) \<and>
   prepareCallRequest (Single m) \<noteq> Inl (Error ''messages array cannot be empty'')"
proof (intro conjI)
  have e: "prepareCallRequest (Many []) = Inl (Error ''messages array cannot be empty'')"
    by simp
  show "prepareCallRequest (Many []) = Inl (Error ''messages array cannot be empty'')"
    by (rule e)
  show "call cl tr (Many []) st = (Inl (Plain (Error ''messages array cannot be empty'')), st)"
    and "snd (callAgent cl tr a (Many []) st) = st"
    and "\<exists>e. fst (callAgent cl tr a (Many []) st) = Inl (Plain e)"
    using rejected_offline [OF e] by blast+
  show "prepareCallRequest (Single m) \<noteq> Inl (Error ''messages array cannot be empty'')"
    unfolding prepare_Single by (cases "first_violation m") simp_all
  show "(prepareCallRequest (Many ms) = Inl (Error ''messages array cannot be empty'')) = (ms = [])"
  proof (cases ms)
    case Nil
    then show ?thesis by simp
  next
    case (Cons x xs)
    show ?thesis
    proof (cases "validate_loop ms")
      case None
      with Cons show ?thesis by simp
    next
      case (Some e)
      from validate_loop_Some [OF this] Some Cons show ?thesis by auto
    qed
  qed
qed

text \<open>The empty-array test of the suite, and a one-element sequence for contrast.\<close>

theorem empty_sequence_rejected_witness:
  "call client_retry3 mock_ok (Many []) net0 =
     (Inl (Plain (Error ''messages array cannot be empty'')), net0) \<and>
   callAgent client_retry3 mock_ok (Some (ascii ''my-agent'')) (Many []) net0 =
     (Inl (Plain (Error ''messages array cannot be empty'')), net0) \<and>
   prepareCallRequest (Many [msg_hello]) \<noteq> Inl (Error ''messages array cannot be empty'')"
  using empty_sequence_rejected [where cl = client_retry3 and tr = mock_ok and st = net0
      and ms = "[msg_hello]"]
  by (simp add: callAgent_def ascii_def)

section \<open>Empty strings\<close>

text \<open>
  Claim C9, as stated, fails for a message whose \<open>sender.id\<close> and \<open>content\<close> are both
  the empty string: the content is tested first, so the error is the one of the first
  rule, not \<open>sender must have an id property\<close>.
\<close>

theorem blank_id_counterexample:
  "sender msg_blank = Some \<lparr>id' = Some [], name = None\<rparr> \<and>
   prepareCallRequest (Single msg_blank) =
     Inl (Error ''Message must have both sender and content properties'') \<and>
   prepareCallRequest (Single msg_blank) \<noteq>
     Inl (Error ''Message sender must have an id property'') \<and>
   prepareCallRequest (Many [msg_blank]) \<noteq>
     Inl (Error ''Each message sender must have an id property'')"
  by (simp add: msg_blank_def truthy_str_def)

lemma blank_violations:
  "content m = Some [] \<Longrightarrow> first_violation m = Some SenderOrContent"
  "sender m = Some s \<Longrightarrow> id' s = Some [] \<Longrightarrow> present (content m) \<Longrightarrow>
     first_violation m = Some SenderId"
  "sender m = Some s \<Longrightarrow> id' s = Some [] \<Longrightarrow> first_violation m \<noteq> None"
  by (simp_all add: first_violation_def present_def truthy_str_def)

lemma prepare_invalid:
  assumes "first_violation m \<noteq> None"
    and "msgs = Single m \<or> (\<exists>ms. msgs = Many ms \<and> m \<in> set ms)"
  shows "\<exists>e. prepareCallRequest msgs = Inl e"
proof -
  from assms(2) show ?thesis
  proof
    assume "msgs = Single m"
    with assms(1) show ?thesis
      by (auto simp add: prepare_Single simp del: prepareCallRequest.simps(1))
  next
    assume "\<exists>ms. msgs = Many ms \<and> m \<in> set ms"
    then obtain ms where ms: "msgs = Many ms" "m \<in> set ms" by blast
    with assms(1) validate_loop_invalid [of m ms] obtain e where "validate_loop ms = Some e"
      by (auto simp: valid_message_def)
    with ms show ?thesis by simp
  qed
qed

text \<open>
  Claim C9, amended. The presence checks test truthiness. A message whose \<open>content\<close> is
  the empty string is rejected with \<open>must have both sender and content properties\<close>
  although the property is there; a message with a sender and a non-empty content whose
  \<open>sender.id\<close> is the empty string is rejected with \<open>sender must have an id property\<close>
  (in a sequence: when the messages before it are valid). An input that holds such a
  message anywhere is rejected before any request.
\<close>

theorem blank_fields_rejected:
  "(content m = Some [] \<longrightarrow>
      prepareCallRequest (Single m) =
        Inl (Error ''Message must have both sender and content properties'')) \<and>
   (content m = Some [] \<and> (\<forall>x \<in> set pre. valid_message x) \<longrightarrow>
      prepareCallRequest (Many (pre @ m # rest)) =
        Inl (Error ''Each message must have both sender and content properties'')) \<and>
   (sender m = Some s \<and> id' s = Some [] \<and> present (content m) \<longrightarrow>
      prepareCallRequest (Single m) = Inl (Error ''Message sender must have an id property'')) \<and>
   (sender m = Some s \<and> id' s = Some [] \<and> present (content m) \<and>
    (\<forall>x \<in> set pre. valid_message x) \<longrightarrow>
      prepareCallRequest (Many (pre @ m # rest)) =
        Inl (Error ''Each message sender must have an id property'')) \<and>
   ((content m = Some [] \<or> (sender m = Some s \<and> id' s = Some [])) \<and>
    (msgs = Single m \<or> (\<exists>ms. msgs = Many ms \<and> m \<in> set ms)) \<longrightarrow>
      (\<exists>e. call cl tr msgs st = (Inl (Plain e), st)) \<and>
      snd (callAgent cl tr a msgs st) = st \<and>
      (\<exists>e. fst (callAgent cl tr a msgs st) = Inl (Plain e)))"
proof (intro conjI impI)
  assume "content m = Some []"
  from blank_violations(1) [OF this]
  show "prepareCallRequest (Single m) =
        Inl (Error ''Message must have both sender and content properties'')"
    unfolding prepare_Single by simp
next
  assume "content m = Some [] \<and> (\<forall>x \<in> set pre. valid_message x)"
  then have "\<forall>x \<in> set pre. valid_message x" "first_violation m = Some SenderOrContent"
    using blank_violations(1) by blast+
  from prepare_Many_first [OF this]
  show "prepareCallRequest (Many (pre @ m # rest)) =
        Inl (Error ''Each message must have both sender and content properties'')"
    by simp
next
  assume "sender m = Some s \<and> id' s = Some [] \<and> present (content m)"
  then have "first_violation m = Some SenderId"
    using blank_violations(2) by blast
  then show "prepareCallRequest (Single m) = Inl (Error ''Message sender must have an id property'')"
    unfolding prepare_Single by simp
next
  assume "sender m = Some s \<and> id' s = Some [] \<and> present (content m) \<and>
    (\<forall>x \<in> set pre. valid_message x)"
  then have "\<forall>x \<in> set pre. valid_message x" "first_violation m = Some SenderId"
    using blank_violations(2) by blast+
  from prepare_Many_first [OF this]
  show "prepareCallRequest (Many (pre @ m # rest)) =
        Inl (Error ''Each message sender must have an id property'')"
    by simp
next
  assume a: "(content m = Some [] \<or> (sender m = Some s \<and> id' s = Some [])) \<and>
    (msgs = Single m \<or> (\<exists>ms. msgs = Many ms \<and> m \<in> set ms))"
  then have "first_violation m \<noteq> None"
    using blank_violations(1,3) by fastforce
  with a prepare_invalid obtain e where e: "prepareCallRequest msgs = Inl e" by blast
  from rejected_offline [OF e]
  show "\<exists>e. call cl tr msgs st = (Inl (Plain e), st)"
    and "snd (callAgent cl tr a msgs st) = st"
    and "\<exists>e. fst (callAgent cl tr a msgs st) = Inl (Plain e)"
    by blast+
qed

text \<open>The greeting of the test-suite with its content, or its sender id, emptied.\<close>

theorem blank_fields_rejected_witness:
  "content msg_empty_content = Some [] \<and>
   prepareCallRequest (Single msg_empty_content) =
     Inl (Error ''Message must have both sender and content properties'') \<and>
   prepareCallRequest (Many [msg_hello, msg_empty_content]) =
     Inl (Error ''Each message must have both sender and content properties'') \<and>
   sender msg_empty_id = Some \<lparr>id' = Some [], name = None\<rparr> \<and>
   prepareCallRequest (Single msg_empty_id) =
     Inl (Error ''Message sender must have an id property'') \<and>
   prepareCallRequest (Many [msg_hello, msg_empty_id]) =
     Inl (Error ''Each message sender must have an id property'') \<and>
   snd (call client_plain mock_ok (Many [msg_hello, msg_empty_id]) net0) = net0"
proof -
  note c2 = conjunct2
  have f: "content msg_empty_content = Some []"
    "sender msg_empty_id = Some \<lparr>id' = Some [], name = None\<rparr>"
    "present (content msg_empty_id)" "valid_message msg_hello"
    by (simp_all add: msg_empty_content_def msg_empty_id_def msg_hello_def present_def
        truthy_str_def valid_message_def first_violation_def)
  have a: "prepareCallRequest (Single msg_empty_content) =
     Inl (Error ''Message must have both sender and content properties'')"
    using blank_fields_rejected [where m = msg_empty_content, THEN conjunct1] f(1) by simp
  have b: "prepareCallRequest (Many ([msg_hello] @ msg_empty_content # [])) =
     Inl (Error ''Each message must have both sender and content properties'')"
    using blank_fields_rejected [where m = msg_empty_content and pre = "[msg_hello]" and rest = "[]",
        THEN c2, THEN conjunct1] f(1,4) by simp
  have c: "prepareCallRequest (Single msg_empty_id) =
     Inl (Error ''Message sender must have an id property'')"
    using blank_fields_rejected [where m = msg_empty_id and s = "\<lparr>id' = Some [], name = None\<rparr>",
        THEN c2, THEN c2, THEN conjunct1] f(2,3) by simp
  have d: "prepareCallRequest (Many ([msg_hello] @ msg_empty_id # [])) =
     Inl (Error ''Each message sender must have an id property'')"
    using blank_fields_rejected [where m = msg_empty_id and s = "\<lparr>id' = Some [], name = None\<rparr>"
        and pre = "[msg_hello]" and rest = "[]", THEN c2, THEN c2, THEN c2, THEN conjunct1] f(2,3,4)
    by simp
  have e: "snd (call client_plain mock_ok (Many [msg_hello, msg_empty_id]) net0) = net0"
    using blank_fields_rejected [where m = msg_empty_id and s = "\<lparr>id' = Some [], name = None\<rparr>"
        and msgs = "Many [msg_hello, msg_empty_id]" and cl = client_plain and tr = mock_ok
        and st = net0 and a = None, THEN c2, THEN c2, THEN c2, THEN c2] f(2)
    by auto
  from a b c d e f(1,2) show ?thesis by simp
qed

section \<open>What every request of an operation carries\<close>

lemma httpClient_requests:
  assumes "c \<in> set (requests (new_events st (snd (httpClient cl tr cfg st))))"
  shows "timeout_ms c = timeout_ms cfg" and "baseURL c = baseURL cfg"
    and "headers c = headers cfg" and "req_method c = req_method cfg"
    and "url c = url cfg" and "req_data c = req_data cfg"
proof -
  obtain evs where e: "trace (snd (httpClient cl tr cfg st)) = trace st @ evs"
    "\<forall>c \<in> set (requests evs). c\<lparr>retryCount := None\<rparr> = cfg\<lparr>retryCount := None\<rparr>"
    using httpClient_trace [of cl tr cfg st] by blast
  from e(1) have "new_events st (snd (httpClient cl tr cfg st)) = evs" by simp
  with assms e(2) have q: "c\<lparr>retryCount := None\<rparr> = cfg\<lparr>retryCount := None\<rparr>" by simp
  from arg_cong [OF q, of timeout_ms] show "timeout_ms c = timeout_ms cfg" by simp
  from arg_cong [OF q, of baseURL] show "baseURL c = baseURL cfg" by simp
  from arg_cong [OF q, of headers] show "headers c = headers cfg" by simp
  from arg_cong [OF q, of req_method] show "req_method c = req_method cfg" by simp
  from arg_cong [OF q, of url] show "url c = url cfg" by simp
  from arg_cong [OF q, of req_data] show "req_data c = req_data cfg" by simp
qed

lemma new_events_same [simp]: "new_events st st = []"
  by (simp add: new_events_def)

lemma snd_call:
  "prepareCallRequest msgs = Inr p \<Longrightarrow>
   snd (call cl tr msgs st) = snd (httpClient cl tr (mergeConfig cl ''post'' ''/dispatch'' (Some p)) st)"
  by (simp add: call_def post_def split: prod.splits sum.splits)

lemma snd_callAgent:
  "n \<noteq> [] \<Longrightarrow> prepareCallRequest msgs = Inr p \<Longrightarrow> encodeURIComponent n = Inr u \<Longrightarrow>
   snd (callAgent cl tr (Some n) msgs st) =
   snd (httpClient cl tr (mergeConfig cl ''post'' (''/dispatch/'' @ u) (Some p)) st)"
  by (simp add: callAgent_def post_def split: prod.splits sum.splits)

lemma callAgent_malformed:
  "n \<noteq> [] \<Longrightarrow> prepareCallRequest msgs = Inr p \<Longrightarrow> encodeURIComponent n = Inl e \<Longrightarrow>
   callAgent cl tr (Some n) msgs st = (Inl (Plain e), st)"
  by (simp add: callAgent_def)

lemma snd_getAgents:
  "snd (getAgents cl tr st) = snd (httpClient cl tr (mergeConfig cl ''get'' ''/agents'' None) st)"
  by (simp add: getAgents_def get_def split: prod.splits sum.splits)

lemma snd_getHealth:
  "snd (getHealth cl tr st) = snd (httpClient cl tr (mergeConfig cl ''get'' ''/health'' None) st)"
  by (simp add: getHealth_def get_def split: prod.splits sum.splits)

lemma callAgent_cases:
  obtains (rejected) "snd (callAgent cl tr a msgs st) = st"
  | (sent) n p u where "a = Some n" "n \<noteq> []" "prepareCallRequest msgs = Inr p"
      "encodeURIComponent n = Inr u"
proof (cases "\<exists>n p u. a = Some n \<and> n \<noteq> [] \<and> prepareCallRequest msgs = Inr p \<and>
    encodeURIComponent n = Inr u")
  case True
  then show ?thesis using sent by blast
next
  case False
  then have "snd (callAgent cl tr a msgs st) = st"
    by (cases a; cases "prepareCallRequest msgs"; cases "encodeURIComponent (the a)")
       (auto simp: callAgent_def)
  then show ?thesis by (rule rejected)
qed

lemma call_timeout:
  assumes "c \<in> set (requests (new_events st (snd (call cl tr msgs st))))"
  shows "timeout_ms c = c_timeout cl"
proof (cases "prepareCallRequest msgs")
  case (Inl e)
  with assms show ?thesis by (simp add: call_def)
next
  case (Inr p)
  from assms show ?thesis
    unfolding snd_call [OF Inr] by (simp add: httpClient_requests(1) mergeConfig_def)
qed

lemma callAgent_timeout:
  assumes "c \<in> set (requests (new_events st (snd (callAgent cl tr a msgs st))))"
  shows "timeout_ms c = c_timeout cl"
proof (cases rule: callAgent_cases [of cl tr a msgs st])
  case rejected
  with assms show ?thesis by simp
next
  case (sent n p u)
  from assms show ?thesis
    unfolding sent(1) snd_callAgent [OF sent(2,3,4)]
    by (simp add: httpClient_requests(1) mergeConfig_def)
qed

lemma getAgents_timeout:
  assumes "c \<in> set (requests (new_events st (snd (getAgents cl tr st))))"
  shows "timeout_ms c = c_timeout cl"
  using assms unfolding snd_getAgents by (simp add: httpClient_requests(1) mergeConfig_def)

lemma getHealth_timeout:
  assumes "c \<in> set (requests (new_events st (snd (getHealth cl tr st))))"
  shows "timeout_ms c = c_timeout cl"
  using assms unfolding snd_getHealth by (simp add: httpClient_requests(1) mergeConfig_def)

lemma httpClient_once:
  assumes "interceptor cl = None"
  shows "new_events st (snd (httpClient cl tr cfg st)) = [Request cfg]"
proof (cases "tr (length (configs st)) cfg")
  case (Inl f)
  with assms show ?thesis by (simp add: httpClient_plain send_def)
next
  case (Inr r)
  then show ?thesis by (simp add: httpClient_response send_def)
qed

section \<open>Construction\<close>

text \<open>
  Claim C6. The constructor fails with \<open>baseUrl is required\<close> whenever \<open>baseUrl\<close> is
  missing or empty. When \<open>timeout\<close> is omitted, the instance holds 90000 and every
  request of every operation carries a timeout of 90000 ms. When \<open>retry\<close> is absent or
  not positive, no rejection handler is installed, and every operation that reaches the
  network sends exactly one request and awaits no delay (\<open>callAgent\<close> sends none when
  the name cannot be encoded).
\<close>

theorem construction_contract:
  "(baseUrl opts = None \<or> baseUrl opts = Some [] \<longrightarrow>
      CubicClient opts = Inl (Error ''baseUrl is required'')) \<and>
   (CubicClient opts = Inr cl \<and> timeout opts = None \<longrightarrow>
      c_timeout cl = 90000 \<and>
      (\<forall>c \<in> set (requests (new_events st (snd (call cl tr msgs st)))). timeout_ms c = 90000) \<and>
      (\<forall>c \<in> set (requests (new_events st (snd (callAgent cl tr a msgs st)))).
         timeout_ms c = 90000) \<and>
      (\<forall>c \<in> set (requests (new_events st (snd (getAgents cl tra st)))). timeout_ms c = 90000) \<and>
      (\<forall>c \<in> set (requests (new_events st (snd (getHealth cl trh st)))). timeout_ms c = 90000)) \<and>
   (CubicClient opts = Inr cl \<and> (retry opts = None \<or> (\<exists>r. retry opts = Some r \<and> r \<le> 0)) \<longrightarrow>
      interceptor cl = None \<and>
      new_events st (snd (getAgents cl tra st)) = [Request (mergeConfig cl ''get'' ''/agents'' None)] \<and>
      new_events st (snd (getHealth cl trh st)) = [Request (mergeConfig cl ''get'' ''/health'' None)] \<and>
      (prepareCallRequest msgs = Inr p \<longrightarrow>
         new_events st (snd (call cl tr msgs st)) =
           [Request (mergeConfig cl ''post'' ''/dispatch'' (Some p))] \<and>
         (n \<noteq> [] \<longrightarrow>
            new_events st (snd (callAgent cl tr (Some n) msgs st)) =
              (case encodeURIComponent n of
                 Inl e \<Rightarrow> []
               | Inr u \<Rightarrow> [Request (mergeConfig cl ''post'' (''/dispatch/'' @ u) (Some p))]))))"
proof (intro conjI impI ballI)
  assume "baseUrl opts = None \<or> baseUrl opts = Some []"
  then show "CubicClient opts = Inl (Error ''baseUrl is required'')"
    by (auto simp: CubicClient_def)
next
  assume a: "CubicClient opts = Inr cl \<and> timeout opts = None"
  then show t: "c_timeout cl = 90000"
    using CubicClient_Inr(3) [of opts cl] by (simp add: truthy_num_def)
  {
    fix c assume "c \<in> set (requests (new_events st (snd (call cl tr msgs st))))"
    then show "timeout_ms c = 90000" using call_timeout t by metis
  next
    fix c assume "c \<in> set (requests (new_events st (snd (callAgent cl tr a msgs st))))"
    then show "timeout_ms c = 90000" using callAgent_timeout t by metis
  next
    fix c assume "c \<in> set (requests (new_events st (snd (getAgents cl tra st))))"
    then show "timeout_ms c = 90000" using getAgents_timeout t by metis
  next
    fix c assume "c \<in> set (requests (new_events st (snd (getHealth cl trh st))))"
    then show "timeout_ms c = 90000" using getHealth_timeout t by metis
  }
next
  assume a: "CubicClient opts = Inr cl \<and> (retry opts = None \<or> (\<exists>r. retry opts = Some r \<and> r \<le> 0))"
  then show i: "interceptor cl = None"
    using CubicClient_Inr(5) [of opts cl] by auto
  show "new_events st (snd (getAgents cl tra st)) = [Request (mergeConfig cl ''get'' ''/agents'' None)]"
    unfolding snd_getAgents by (rule httpClient_once [OF i])
  show "new_events st (snd (getHealth cl trh st)) = [Request (mergeConfig cl ''get'' ''/health'' None)]"
    unfolding snd_getHealth by (rule httpClient_once [OF i])
  {
    assume p: "prepareCallRequest msgs = Inr p"
    show "new_events st (snd (call cl tr msgs st)) =
           [Request (mergeConfig cl ''post'' ''/dispatch'' (Some p))]"
      unfolding snd_call [OF p] by (rule httpClient_once [OF i])
    assume n: "n \<noteq> []"
    show "new_events st (snd (callAgent cl tr (Some n) msgs st)) =
              (case encodeURIComponent n of
                 Inl e \<Rightarrow> []
               | Inr u \<Rightarrow> [Request (mergeConfig cl ''post'' (''/dispatch/'' @ u) (Some p))])"
    proof (cases "encodeURIComponent n")
      case (Inl e)
      with callAgent_malformed [OF n p Inl] show ?thesis by simp
    next
      case (Inr u)
      with httpClient_once [OF i] show ?thesis
        unfolding snd_callAgent [OF n p Inr] by simp
    qed
  }
qed


text \<open>
  The constructor tests of the suite: no \<open>baseUrl\<close>, an empty one, and the plain client,
  on which a call that the server answers with 400 is one request with a timeout of 90000.
\<close>

theorem construction_contract_witness:
  "CubicClient (localhost\<lparr>baseUrl := None\<rparr>) = Inl (Error ''baseUrl is required'') \<and>
   CubicClient (localhost\<lparr>baseUrl := Some []\<rparr>) = Inl (Error ''baseUrl is required'') \<and>
   CubicClient localhost = Inr client_plain \<and> timeout localhost = None \<and>
   retry localhost = None \<and>
   map timeout_ms (requests (new_events net0 (snd (call client_plain mock_400 (Single msg_hello) net0))))
     = [90000] \<and>
   CubicClient (localhost\<lparr>retry := Some 0\<rparr>) = Inr client_plain \<and>
   length (requests (new_events net0 (snd (getAgents client_plain mock_agents net0)))) = 1"
proof -
  note c2 = conjunct2
  have o: "baseUrl (localhost\<lparr>baseUrl := None\<rparr>) = None"
    "baseUrl (localhost\<lparr>baseUrl := Some []\<rparr>) = Some []"
    "timeout localhost = None" "retry localhost = None"
    "retry (localhost\<lparr>retry := Some 0\<rparr>) = Some 0"
    "CubicClient (localhost\<lparr>retry := Some 0\<rparr>) = Inr client_plain"
    by (simp_all add: localhost_def CubicClient_def client_plain_def)
  have p: "prepareCallRequest (Single msg_hello) = Inr \<lparr>messages = [msg_hello]\<rparr>"
    by (simp add: msg_hello_def truthy_str_def)
  have a: "CubicClient (localhost\<lparr>baseUrl := None\<rparr>) = Inl (Error ''baseUrl is required'')"
    using construction_contract [where opts = "localhost\<lparr>baseUrl := None\<rparr>", THEN conjunct1] o(1)
    by blast
  have b: "CubicClient (localhost\<lparr>baseUrl := Some []\<rparr>) = Inl (Error ''baseUrl is required'')"
    using construction_contract [where opts = "localhost\<lparr>baseUrl := Some []\<rparr>", THEN conjunct1] o(2)
    by blast
  have c: "\<forall>c \<in> set (requests (new_events net0
              (snd (call client_plain mock_400 (Single msg_hello) net0)))). timeout_ms c = 90000"
    using construction_contract [where opts = localhost and cl = client_plain and st = net0
        and tr = mock_400 and msgs = "Single msg_hello", THEN c2, THEN conjunct1]
      fixtures_constructed(1) o(3)
    by blast
  have d: "new_events net0 (snd (call client_plain mock_400 (Single msg_hello) net0)) =
             [Request (mergeConfig client_plain ''post'' ''/dispatch''
                (Some \<lparr>messages = [msg_hello]\<rparr>))]"
    using construction_contract [where opts = localhost and cl = client_plain and st = net0
        and tr = mock_400 and msgs = "Single msg_hello" and p = "\<lparr>messages = [msg_hello]\<rparr>",
        THEN c2, THEN c2]
      fixtures_constructed(1) o(4) p
    by blast
  have e: "new_events net0 (snd (getAgents client_plain mock_agents net0)) =
             [Request (mergeConfig client_plain ''get'' ''/agents'' None)]"
    using construction_contract [where opts = "localhost\<lparr>retry := Some 0\<rparr>" and cl = client_plain
        and st = net0 and tra = mock_agents, THEN c2, THEN c2] o(5,6)
    by simp
  from c have "map timeout_ms (requests (new_events net0
      (snd (call client_plain mock_400 (Single msg_hello) net0)))) = [90000]"
    unfolding d by simp
  with a b e o fixtures_constructed(1) show ?thesis by simp
qed

section \<open>A timeout of zero\<close>

text \<open>
  Claim C10. The constructor reads the option as \<open>options.timeout || 90000\<close>: a timeout
  of 0 constructs the same client as an omitted one, every falsy timeout gives the
  instance and all its requests the default of 90000 ms, and any other value is kept.
\<close>

theorem zero_timeout_is_default:
  "CubicClient (opts\<lparr>timeout := Some 0\<rparr>) = CubicClient (opts\<lparr>timeout := None\<rparr>) \<and>
   (CubicClient opts = Inr cl \<and> \<not> truthy_num (timeout opts) \<longrightarrow>
      c_timeout cl = 90000 \<and>
      (\<forall>c \<in> set (requests (new_events st (snd (call cl tr msgs st)))). timeout_ms c = 90000) \<and>
      (\<forall>c \<in> set (requests (new_events st (snd (callAgent cl tr a msgs st)))).
         timeout_ms c = 90000) \<and>
      (\<forall>c \<in> set (requests (new_events st (snd (getAgents cl tra st)))). timeout_ms c = 90000) \<and>
      (\<forall>c \<in> set (requests (new_events st (snd (getHealth cl trh st)))). timeout_ms c = 90000)) \<and>
   (CubicClient opts = Inr cl \<and> timeout opts = Some t \<and> t \<noteq> 0 \<longrightarrow> c_timeout cl = t)"
proof (intro conjI impI ballI)
  show "CubicClient (opts\<lparr>timeout := Some 0\<rparr>) = CubicClient (opts\<lparr>timeout := None\<rparr>)"
    by (simp add: CubicClient_def split: option.splits)
next
  assume a: "CubicClient opts = Inr cl \<and> \<not> truthy_num (timeout opts)"
  then show t: "c_timeout cl = 90000"
    using CubicClient_Inr(3) [of opts cl] by simp
  {
    fix c assume "c \<in> set (requests (new_events st (snd (call cl tr msgs st))))"
    then show "timeout_ms c = 90000" using call_timeout t by metis
  next
    fix c assume "c \<in> set (requests (new_events st (snd (callAgent cl tr a msgs st))))"
    then show "timeout_ms c = 90000" using callAgent_timeout t by metis
  next
    fix c assume "c \<in> set (requests (new_events st (snd (getAgents cl tra st))))"
    then show "timeout_ms c = 90000" using getAgents_timeout t by metis
  next
    fix c assume "c \<in> set (requests (new_events st (snd (getHealth cl trh st))))"
    then show "timeout_ms c = 90000" using getHealth_timeout t by metis
  }
next
  assume "CubicClient opts = Inr cl \<and> timeout opts = Some t \<and> t \<noteq> 0"
  then show "c_timeout cl = t"
    using CubicClient_Inr(3) [of opts cl] by (simp add: truthy_num_def)
qed

text \<open>The local client with \<open>timeout: 0\<close>, and with \<open>timeout: 5000\<close> as in the suite.\<close>

theorem zero_timeout_is_default_witness:
  "CubicClient (localhost\<lparr>timeout := Some 0\<rparr>) = Inr client_plain \<and>
   \<not> truthy_num (timeout (localhost\<lparr>timeout := Some 0\<rparr>)) \<and>
   c_timeout client_plain = 90000 \<and>
   map timeout_ms
     (requests (new_events net0 (snd (call client_plain mock_ok (Single msg_hello) net0)))) =
     [90000] \<and>
   CubicClient (localhost\<lparr>timeout := Some 5000\<rparr>) = Inr (client_plain\<lparr>c_timeout := 5000\<rparr>) \<and>
   c_timeout (client_plain\<lparr>c_timeout := 5000\<rparr>) = 5000"
proof -
  note c2 = conjunct2
  have o: "CubicClient (localhost\<lparr>timeout := Some 0\<rparr>) = Inr client_plain"
    "\<not> truthy_num (timeout (localhost\<lparr>timeout := Some 0\<rparr>))"
    "timeout (localhost\<lparr>timeout := Some 5000\<rparr>) = Some 5000"
    "CubicClient (localhost\<lparr>timeout := Some 5000\<rparr>) = Inr (client_plain\<lparr>c_timeout := 5000\<rparr>)"
    by (simp_all add: localhost_def CubicClient_def client_plain_def truthy_num_def)
  have a: "c_timeout client_plain = 90000 \<and>
      (\<forall>c \<in> set (requests (new_events net0
          (snd (call client_plain mock_ok (Single msg_hello) net0)))). timeout_ms c = 90000)"
    using zero_timeout_is_default [where opts = "localhost\<lparr>timeout := Some 0\<rparr>"
        and cl = client_plain and st = net0 and tr = mock_ok and msgs = "Single msg_hello",
        THEN c2, THEN conjunct1] o(1,2)
    by blast
  have b: "c_timeout (client_plain\<lparr>c_timeout := 5000\<rparr>) = 5000"
    using zero_timeout_is_default [where opts = "localhost\<lparr>timeout := Some 5000\<rparr>"
        and cl = "client_plain\<lparr>c_timeout := 5000\<rparr>" and t = 5000, THEN c2, THEN c2] o(3,4)
    by simp
  have n: "length (requests (new_events net0
      (snd (call client_plain mock_ok (Single msg_hello) net0)))) = 1"
    by (simp add: call_def post_def msg_hello_def truthy_str_def mock_ok_def httpClient_response
        send_def net0_def new_events_def)
  then obtain c where c: "requests (new_events net0
      (snd (call client_plain mock_ok (Single msg_hello) net0))) = [c]"
    by (auto simp: length_Suc_conv)
  with a have "map timeout_ms (requests (new_events net0
      (snd (call client_plain mock_ok (Single msg_hello) net0)))) = [90000]"
    by simp
  with a b o show ?thesis by simp
qed

section \<open>The response that an operation returns\<close>


section \<open>Percent-encoding\<close>




















lemma escape_Cons: "\<exists>r. escape cp = CHR ''%'' # r"
  by (simp add: escape_def utf8_def pct_def)

lemma escape_nonempty [simp]: "escape cp \<noteq> []"
  using escape_Cons [of cp] by auto












section \<open>Dispatch to a named agent\<close>




section \<open>Listing the agents\<close>



end
